theory Spec2Isabelle
  imports Complex_Main "HOL-Library.AList"
begin

section \<open>Conventions\<close>

text \<open>
  The bot is written in Python over a PostgreSQL store reached through SQLAlchemy.
  \<^item> A Python \<open>float\<close> is modelled as a \<open>real\<close>: the formulas are the source's, the
    rounding of IEEE arithmetic is not part of the model. The min-max normalisation is the
    exception: there the rounding of each operation is a parameter, since the
    normalisation is claimed to be exact.
  \<^item> A Python \<open>int\<close> and an integer column are \<open>int\<close>.
  \<^item> A table with a unique key (user_id, guild_id) is a map from that key to its row; a
    nullable column is an \<open>option\<close>.
  \<^item> Clock readings are parameters of the functions that read the clock; a timestamp is a
    number of seconds.
\<close>

type_synonym user_key = "int \<times> int"
type_synonym timestamp = real

section \<open>Rank engine (rank_system.py)\<close>

text \<open>The \<open>Tier\<close> dataclass. The emoji field is presentation only and is left out.\<close>

record tier =
  name :: string
  min_score :: real
  color :: int

definition TIERS :: "tier list" where
  "TIERS =
    [\<lparr>name = ''Mythic'', min_score = 90, color = 0x9b59b6\<rparr>,
     \<lparr>name = ''Diamond'', min_score = 80, color = 0x00d2ff\<rparr>,
     \<lparr>name = ''Platinum'', min_score = 70, color = 0x7fdbff\<rparr>,
     \<lparr>name = ''Gold'', min_score = 60, color = 0xf1c40f\<rparr>,
     \<lparr>name = ''Silver'', min_score = 45, color = 0xbdc3c7\<rparr>,
     \<lparr>name = ''Bronze'', min_score = 0, color = 0xcd7f32\<rparr>]"

text \<open>
  \<open>pick_tier\<close>: the first tier of the list, read from the top, whose threshold the score
  reaches; the last tier when the loop finds none.
\<close>

definition pick_tier :: "real \<Rightarrow> tier" where
  "pick_tier score =
     (case find (\<lambda>t. score \<ge> min_score t) TIERS of
        Some t \<Rightarrow> t
      | None \<Rightarrow> last TIERS)"

text \<open>
  The rounding of a float operation, to the nearest binary64 number, ties to the even
  one: the exact result \<open>x\<close> with \<open>2 ^ e \<le> \<bar>x\<bar> < 2 ^ (e + 1)\<close> is rounded to a multiple
  of \<open>2 ^ (e - 52)\<close>. The exponent is not bounded here (no overflow, no subnormal
  numbers).
\<close>

definition round_half_even :: "real \<Rightarrow> int" where
  "round_half_even y =
     (let f = \<lfloor>y\<rfloor>; r = y - of_int f
      in if r < 1 / 2 then f
         else if r > 1 / 2 then f + 1
         else if even f then f else f + 1)"

definition binary64 :: "real \<Rightarrow> real" where
  "binary64 x =
     (if x = 0 then 0
      else
        let e = \<lfloor>log 2 \<bar>x\<bar>\<rfloor>; u = 2 powr (of_int e - 52)
        in of_int (round_half_even (x / u)) * u)"

text \<open>
  \<open>_minmax_norm\<close>: 0 for an empty population, 50 when the maximum does not exceed the
  minimum, and the clamped min-max scaling otherwise. The scaling is three float
  operations, a subtraction, a product and a quotient; \<open>rnd\<close> is the rounding applied to
  the result of each (\<open>binary64\<close> on the machine, the identity in exact arithmetic).
\<close>

definition minmax_norm :: "(real \<Rightarrow> real) \<Rightarrow> real list \<Rightarrow> real \<Rightarrow> real" where
  "minmax_norm rnd values x =
     (if values = [] then 0
      else
        let vmin = Min (set values); vmax = Max (set values)
        in if vmax \<le> vmin then 50
           else max 0 (min 100 (rnd (rnd (rnd (x - vmin) * 100) / rnd (vmax - vmin)))))"

definition score_combined :: "real \<Rightarrow> real \<Rightarrow> real" where
  "score_combined eng_norm_0_100 tox_0_1 =
     (let positivity = max 0 (min 1 (1 - tox_0_1)) * 100
      in 0.7 * eng_norm_0_100 + 0.3 * positivity)"

text \<open>
  The loop of \<open>cmd_rank\<close> that looks for the next tier: it runs over the whole list from
  the top and keeps the last tier whose threshold is above the score.
\<close>

definition next_tier :: "real \<Rightarrow> tier option" where
  "next_tier score_user =
     fold (\<lambda>t nt. if score_user < min_score t then Some t else nt) TIERS None"

text \<open>
  \<open>cmd_rank\<close>, as far as the score goes: the profiles are the rows
  (user_id, engagement_score, toxicity_level) of the guild. With no profile the command
  answers that there is no data and computes nothing. A dictionary built from the rows
  keeps the last row of a user; a user without a row reads 0.
\<close>

record rank_card =
  eng_norm :: real
  score :: real
  card_tier :: tier
  card_next :: "tier option"

datatype rank_reply = NoData | Card rank_card

definition cmd_rank :: "(real \<Rightarrow> real) \<Rightarrow> (int \<times> real \<times> real) list \<Rightarrow> int \<Rightarrow> rank_reply" where
  "cmd_rank rnd profiles user_id =
     (if profiles = [] then NoData
      else
        let eng_values = map (\<lambda>(u, e, t). e) profiles;
            eng_map = map_of (rev (map (\<lambda>(u, e, t). (u, e)) profiles));
            tox_map = map_of (rev (map (\<lambda>(u, e, t). (u, t)) profiles));
            eng_user = (case eng_map user_id of None \<Rightarrow> 0 | Some e \<Rightarrow> e);
            tox_user = (case tox_map user_id of None \<Rightarrow> 0 | Some t \<Rightarrow> t);
            en = minmax_norm rnd eng_values eng_user;
            score_user = score_combined en tox_user
        in Card \<lparr>eng_norm = en, score = score_user, card_tier = pick_tier score_user,
                 card_next = next_tier score_user\<rparr>)"

section \<open>Content-signal aggregate (ai_analysis.py)\<close>

text \<open>
  A row of \<open>user_ai_analysis\<close>; every content column is nullable. The topics dictionary
  is an association list in insertion order.
\<close>

record ai_row =
  toxicity_level :: "real option"
  dominant_sentiment :: "string option"
  topics_of_interest :: "(string \<times> int) list option"
  communication_style :: "string option"
  last_analysis :: timestamp

type_synonym ai_table = "user_key \<rightharpoonup> ai_row"

text \<open>
  \<open>analyze_text\<close> calls one of three backends chosen by configuration (a lexicon, a hosted
  model, a remote API). It is a parameter here: it returns
  (sent_score, sent_label, tox, topics_add, style), or \<open>None\<close> when it raises.
\<close>

type_synonym classifier =
  "string \<Rightarrow> (real \<times> string \<times> real \<times> (string \<times> int) list \<times> string) option"

text \<open>
  \<open>str.strip()\<close>, for the white space of ASCII. Python strips the other white space
  of Unicode as well (U+0085, U+00A0 and more), which a string of bytes does not tell
  apart; this moves only the test that skips a short content.
\<close>

definition is_space :: "char \<Rightarrow> bool" where
  "is_space c = (of_char c \<in> {9, 10, 11, 12, 13, 28, 29, 30, 31, 32 :: nat})"

definition strip :: "string \<Rightarrow> string" where
  "strip s = rev (dropWhile is_space (rev (dropWhile is_space s)))"

text \<open>The row \<open>get_or_create_ai\<close> adds when the user has none.\<close>

definition new_ai :: "timestamp \<Rightarrow> ai_row" where
  "new_ai now =
     \<lparr>toxicity_level = Some 0, dominant_sentiment = Some ''neutral'',
      topics_of_interest = Some [], communication_style = None, last_analysis = now\<rparr>"

text \<open>The toxicity fusion of \<open>analyze_and_update\<close>: a rise is amplified, a fall is damped.\<close>

definition fuse_toxicity :: "real \<Rightarrow> real \<Rightarrow> real" where
  "fuse_toxicity prev_tox tox =
     (let delta = tox - prev_tox
      in if delta > 0 then min 1 (prev_tox + delta * 1.8)
         else max 0 (prev_tox + delta * 0.3))"

text \<open>The merge of the topic counters: each new count is added to the stored one.\<close>

definition merge_topics :: "(string \<times> int) list \<Rightarrow> (string \<times> int) list \<Rightarrow> (string \<times> int) list" where
  "merge_topics old_topics topics_add =
     fold (\<lambda>(k, v) d. AList.update k ((case map_of d k of None \<Rightarrow> 0 | Some c \<Rightarrow> c) + v) d)
          topics_add old_topics"

text \<open>
  \<open>analyze_and_update\<close> works in a session of its own and commits: it reads and writes
  the committed table. A content shorter than two characters once stripped is skipped;
  an exception of the classifier rolls the session back. The rows of the guild and of
  the user that it ensures first lie in other tables and are left out.
\<close>

definition analyze_and_update ::
  "classifier \<Rightarrow> timestamp \<Rightarrow> int \<Rightarrow> int \<Rightarrow> string \<Rightarrow> ai_table \<Rightarrow> ai_table" where
  "analyze_and_update classify now user_id guild_id content db =
     (if content = [] \<or> length (strip content) < 2 then db
      else
        case classify content of
          None \<Rightarrow> db
        | Some (sent_score, sent_label, tox, topics_add, style) \<Rightarrow>
            let ai = (case db (user_id, guild_id) of None \<Rightarrow> new_ai now | Some r \<Rightarrow> r);
                prev_tox = (case toxicity_level ai of None \<Rightarrow> 0 | Some t \<Rightarrow> t);
                old_topics = (case topics_of_interest ai of None \<Rightarrow> [] | Some d \<Rightarrow> d)
            in db((user_id, guild_id) \<mapsto>
                 ai\<lparr>toxicity_level := Some (fuse_toxicity prev_tox tox),
                    dominant_sentiment := Some sent_label,
                    topics_of_interest := Some (merge_topics old_topics topics_add),
                    communication_style := Some style,
                    last_analysis := now\<rparr>))"

text \<open>A row of \<open>messages\<close>.\<close>

record message =
  msg_user_id :: int
  msg_guild_id :: int
  message_content :: "string option"
  msg_timestamp :: timestamp

text \<open>
  The replay loop of \<open>rebuild_ai_for_user\<close>: one call of \<open>analyze_and_update\<close> for each
  message, the \<open>i\<close>-th call reading the clock at \<open>clock i\<close>.
\<close>

fun replay ::
  "classifier \<Rightarrow> (nat \<Rightarrow> timestamp) \<Rightarrow> int \<Rightarrow> int \<Rightarrow> nat \<Rightarrow> message list \<Rightarrow> ai_table \<Rightarrow> ai_table" where
  "replay classify clock user_id guild_id i [] db = db"
| "replay classify clock user_id guild_id i (m # ms) db =
     replay classify clock user_id guild_id (Suc i) ms
       (analyze_and_update classify (clock i) user_id guild_id
          (case message_content m of None \<Rightarrow> [] | Some c \<Rightarrow> c) db)"

text \<open>
  The commit that ends \<open>rebuild_ai_for_user\<close>. The session of the rebuild loaded the row
  before the replay and assigned the four defaults to its object; these assignments
  stay in the session (\<open>autoflush\<close> is off in db.py, and nothing flushes before the
  commit). The commit writes the columns whose assigned value differs from the loaded
  one, over whatever the row holds by then.
\<close>

definition flush_reset :: "ai_row \<Rightarrow> ai_row \<Rightarrow> ai_row" where
  "flush_reset loaded cur =
     cur\<lparr>toxicity_level :=
           (if toxicity_level loaded = Some 0 then toxicity_level cur else Some 0),
         dominant_sentiment :=
           (if dominant_sentiment loaded = Some ''neutral'' then dominant_sentiment cur
            else Some ''neutral''),
         topics_of_interest :=
           (if topics_of_interest loaded = Some [] then topics_of_interest cur else Some []),
         communication_style :=
           (if communication_style loaded = None then communication_style cur else None)\<rparr>"

text \<open>
  \<open>rebuild_ai_for_user\<close>, for a user whose row exists: load the row, assign the defaults
  in the session, read the messages of the user by ascending timestamp, replay them
  (each in its own committed session), commit. The result is \<open>None\<close> when the user has no
  row: the rebuild then holds an uncommitted insert of the same key while the replay
  runs, which this model does not cover.
\<close>

definition rebuild_ai_for_user ::
  "classifier \<Rightarrow> (nat \<Rightarrow> timestamp) \<Rightarrow> int \<Rightarrow> int \<Rightarrow> message list \<Rightarrow> ai_table \<Rightarrow> ai_table option" where
  "rebuild_ai_for_user classify clock user_id guild_id messages db =
     (case db (user_id, guild_id) of
        None \<Rightarrow> None
      | Some loaded \<Rightarrow>
          let msgs = sort_key msg_timestamp
                       (filter (\<lambda>m. msg_user_id m = user_id \<and> msg_guild_id m = guild_id) messages);
              db' = replay classify clock user_id guild_id 0 msgs db
          in case db' (user_id, guild_id) of
               None \<Rightarrow> None
             | Some cur \<Rightarrow> Some (db'((user_id, guild_id) \<mapsto> flush_reset loaded cur)))"

section \<open>Calendar dates\<close>

text \<open>
  A \<open>datetime.date\<close>. Python compares two dates and subtracts days from a date through
  the proleptic Gregorian ordinal (\<open>date.toordinal\<close>), which is computed here as the
  standard library does. The range of the type (years 1 to 9999) is not modelled: the
  dates at hand are clock readings and stored days.
\<close>

record date =
  year :: int
  month :: int
  day :: int

definition is_leap :: "int \<Rightarrow> bool" where
  "is_leap y = (y mod 4 = 0 \<and> (y mod 100 \<noteq> 0 \<or> y mod 400 = 0))"

definition days_before_year :: "int \<Rightarrow> int" where
  "days_before_year y = (y - 1) * 365 + (y - 1) div 4 - (y - 1) div 100 + (y - 1) div 400"

definition days_before_month :: "int \<Rightarrow> int \<Rightarrow> int" where
  "days_before_month y m =
     [0, 31, 59, 90, 120, 151, 181, 212, 243, 273, 304, 334] ! nat (m - 1)
       + (if m > 2 \<and> is_leap y then 1 else 0)"

definition toordinal :: "date \<Rightarrow> int" where
  "toordinal d = days_before_year (year d) + days_before_month (year d) (month d) + day d"

section \<open>Engagement aggregate (user_engagement.py)\<close>

text \<open>The tables the engagement update reads and writes.\<close>

record user_row =
  username :: string
  avatar_url :: "string option"
  is_active :: bool

record activity_row =
  message_count :: "int option"
  reaction_count :: "int option"
  received_reactions :: "int option"

record umd_row =
  umd_user_id :: int
  umd_guild_id :: int
  umd_day :: date
  umd_count :: int

record engagement_row =
  mentions_made :: int
  mentions_received :: int
  threads_created :: int
  invitations_sent :: int
  active_days_in_month :: int
  streak_days :: int
  engagement_score :: real
  last_update :: timestamp

record store =
  users :: "user_key \<rightharpoonup> user_row"
  user_activity :: "user_key \<rightharpoonup> activity_row"
  user_message_daily :: "umd_row list"
  user_engagement :: "user_key \<rightharpoonup> engagement_row"

text \<open>\<open>_ensure_user\<close>: adds the user when absent; an empty or missing name gets the default.\<close>

definition ensure_user ::
  "int \<Rightarrow> int \<Rightarrow> string option \<Rightarrow> string option \<Rightarrow> (user_key \<rightharpoonup> user_row) \<Rightarrow> (user_key \<rightharpoonup> user_row)" where
  "ensure_user user_id guild_id uname avatar us =
     (case us (user_id, guild_id) of
        Some u \<Rightarrow> us
      | None \<Rightarrow>
          us((user_id, guild_id) \<mapsto>
            \<lparr>username = (case uname of None \<Rightarrow> ''Unknown#0000''
                          | Some n \<Rightarrow> if n = [] then ''Unknown#0000'' else n),
             avatar_url = avatar, is_active = True\<rparr>))"

text \<open>
  The backward walk of \<open>_compute_active_days_and_streak\<close>: while the day is in the set,
  count it and step one day back. The days are ordinals.
\<close>

function streak_loop :: "int list \<Rightarrow> int \<Rightarrow> int \<Rightarrow> int" where
  "streak_loop days_set d streak =
     (if d \<in> set days_set then streak_loop days_set (d - 1) (streak + 1) else streak)"
  by pat_completeness auto
termination
proof (relation "measure (\<lambda>(days_set, d, streak). length (filter (\<lambda>x. x \<le> d) days_set))")
  show "wf (measure (\<lambda>(days_set, d, streak). length (filter (\<lambda>x. x \<le> d) days_set)))"
    by simp
next
  fix days_set :: "int list" and d streak :: int
  assume mem: "d \<in> set days_set"
  have eq: "filter (\<lambda>x. x \<le> d - 1) days_set
            = filter (\<lambda>x. x \<le> d - 1) (filter (\<lambda>x. x \<le> d) days_set)"
    by (simp add: conj_commute) (rule filter_cong, auto)
  from mem have "d \<in> set (filter (\<lambda>x. x \<le> d) days_set)" by simp
  then have "length (filter (\<lambda>x. x \<le> d - 1) (filter (\<lambda>x. x \<le> d) days_set))
             < length (filter (\<lambda>x. x \<le> d) days_set)"
    by (rule length_filter_less) simp
  with eq show "((days_set, d - 1, streak + 1), (days_set, d, streak))
        \<in> measure (\<lambda>(days_set, d, streak). length (filter (\<lambda>x. x \<le> d) days_set))"
    by simp
qed

text \<open>
  \<open>_compute_active_days_and_streak\<close>: one query for the rows of the user between the
  first day of the month of \<open>today\<close> and \<open>today\<close> with a positive count; the number of
  rows is the active days, and the streak walks back from \<open>today\<close> through the days of
  these rows.
\<close>

definition compute_active_days_and_streak :: "umd_row list \<Rightarrow> int \<Rightarrow> int \<Rightarrow> date \<Rightarrow> int \<times> int" where
  "compute_active_days_and_streak umd user_id guild_id today =
     (let start_month = today\<lparr>day := 1\<rparr>;
          rows = filter (\<lambda>r. umd_user_id r = user_id \<and> umd_guild_id r = guild_id \<and>
                             toordinal (umd_day r) \<ge> toordinal start_month \<and>
                             toordinal (umd_day r) \<le> toordinal today \<and>
                             umd_count r > 0) umd;
          active_days = int (length rows);
          days_set = map (\<lambda>r. toordinal (umd_day r)) rows
      in (active_days, streak_loop days_set (toordinal today) 0))"

text \<open>\<open>_safe_activity\<close>: (messages, reaction_count, received_reactions), zeros without a row.\<close>

definition safe_activity :: "(user_key \<rightharpoonup> activity_row) \<Rightarrow> int \<Rightarrow> int \<Rightarrow> int \<times> int \<times> int" where
  "safe_activity ua user_id guild_id =
     (case ua (user_id, guild_id) of
        None \<Rightarrow> (0, 0, 0)
      | Some a \<Rightarrow>
          (case message_count a of None \<Rightarrow> 0 | Some n \<Rightarrow> n,
           case reaction_count a of None \<Rightarrow> 0 | Some n \<Rightarrow> n,
           case received_reactions a of None \<Rightarrow> 0 | Some n \<Rightarrow> n))"

text \<open>\<open>_engagement_score\<close>, with the parameters in the order of the source.\<close>

definition engagement_score_of :: "int \<Rightarrow> int \<Rightarrow> int \<Rightarrow> int \<Rightarrow> int \<Rightarrow> real" where
  "engagement_score_of messages reactions_made reactions_received active_days streak =
     real_of_int messages * 0.5
     + real_of_int reactions_received * 1.0
     + real_of_int reactions_made * 0.2
     + real_of_int active_days * 3.0
     + real_of_int streak * 2.0"

text \<open>
  The two upserts of \<open>process_message_engagement\<close>. An insert stamps the row with the
  clock of the program (\<open>now\<close>), an update with the clock of the database (\<open>db_now\<close>).
  The columns an insert does not name take their defaults, 0.
\<close>

definition upsert_author ::
  "user_key \<Rightarrow> int \<Rightarrow> int \<Rightarrow> int \<Rightarrow> real \<Rightarrow> timestamp \<Rightarrow> timestamp \<Rightarrow>
   (user_key \<rightharpoonup> engagement_row) \<Rightarrow> (user_key \<rightharpoonup> engagement_row)" where
  "upsert_author k inc_made active_days streak sc now db_now ue =
     (case ue k of
        None \<Rightarrow>
          ue(k \<mapsto> \<lparr>mentions_made = inc_made, mentions_received = 0, threads_created = 0,
                   invitations_sent = 0, active_days_in_month = active_days,
                   streak_days = streak, engagement_score = sc, last_update = now\<rparr>)
      | Some r \<Rightarrow>
          ue(k \<mapsto> r\<lparr>mentions_made := mentions_made r + inc_made,
                    active_days_in_month := active_days,
                    streak_days := streak,
                    engagement_score := sc,
                    last_update := db_now\<rparr>))"

definition upsert_mentioned ::
  "timestamp \<Rightarrow> timestamp \<Rightarrow> user_key \<Rightarrow> (user_key \<rightharpoonup> engagement_row) \<Rightarrow> (user_key \<rightharpoonup> engagement_row)" where
  "upsert_mentioned now db_now k ue =
     (case ue k of
        None \<Rightarrow>
          ue(k \<mapsto> \<lparr>mentions_made = 0, mentions_received = 1, threads_created = 0,
                   invitations_sent = 0, active_days_in_month = 0,
                   streak_days = 0, engagement_score = 0, last_update = now\<rparr>)
      | Some r \<Rightarrow>
          ue(k \<mapsto> r\<lparr>mentions_received := mentions_received r + 1, last_update := db_now\<rparr>))"

text \<open>
  \<open>process_message_engagement\<close>: the users are ensured, the metrics of the author are
  computed from the activity row and the daily counters, the row of the author is
  upserted, then one upsert for each mentioned id, in the order of the list.
\<close>

definition process_message_engagement ::
  "int \<Rightarrow> int \<Rightarrow> int list \<Rightarrow> string option \<Rightarrow> string option \<Rightarrow>
   timestamp \<Rightarrow> timestamp \<Rightarrow> date \<Rightarrow> store \<Rightarrow> store" where
  "process_message_engagement author_id guild_id mentioned_user_ids author_name author_avatar
       now db_now today db =
     (let us = fold (\<lambda>mid u. ensure_user mid guild_id None None u) mentioned_user_ids
                 (ensure_user author_id guild_id author_name author_avatar (users db));
          (messages, react_made, react_recv) = safe_activity (user_activity db) author_id guild_id;
          (active_days, streak) =
             compute_active_days_and_streak (user_message_daily db) author_id guild_id today;
          sc = engagement_score_of messages react_made react_recv active_days streak;
          inc_made = int (length mentioned_user_ids);
          ue1 = upsert_author (author_id, guild_id) inc_made active_days streak sc now db_now
                  (user_engagement db);
          ue2 = fold (\<lambda>mid u. upsert_mentioned now db_now (mid, guild_id) u) mentioned_user_ids ue1
      in db\<lparr>users := us, user_engagement := ue2\<rparr>)"

text \<open>
  The claim on the streak, in the words of the specification: a day is active when the
  daily counter store holds a positive count of the user for it.
\<close>

definition active_on :: "umd_row list \<Rightarrow> int \<Rightarrow> int \<Rightarrow> int \<Rightarrow> bool" where
  "active_on umd user_id guild_id d =
     (\<exists>r \<in> set umd. umd_user_id r = user_id \<and> umd_guild_id r = guild_id \<and>
                     toordinal (umd_day r) = d \<and> umd_count r > 0)"

section \<open>Snapshot composer (user_profile.py)\<close>

text \<open>\<open>_sum_umd\<close>: the sum of the counts of the user between two days, 0 without rows.\<close>

definition sum_umd :: "umd_row list \<Rightarrow> int \<Rightarrow> int \<Rightarrow> int \<Rightarrow> int \<Rightarrow> int" where
  "sum_umd umd user_id guild_id d0 d1 =
     sum_list (map umd_count
       (filter (\<lambda>r. umd_user_id r = user_id \<and> umd_guild_id r = guild_id \<and>
                    toordinal (umd_day r) \<ge> d0 \<and> toordinal (umd_day r) \<le> d1) umd))"

text \<open>The trend of \<open>get_user_snapshot\<close> from the sums of the two windows.\<close>

definition delta7 :: "int \<Rightarrow> int \<Rightarrow> real" where
  "delta7 sum_curr sum_prev =
     (if sum_curr = 0 \<and> sum_prev = 0 then 0
      else if sum_prev = 0 then 100
      else real_of_int (sum_curr - sum_prev) * 100 / real_of_int (max 1 sum_prev))"

text \<open>
  Python's \<open>round(x, 1)\<close>: the nearest multiple of one tenth, the even one of two that are
  equally near.
\<close>

definition py_round1 :: "real \<Rightarrow> real" where
  "py_round1 x =
     (let y = x * 10; f = \<lfloor>y\<rfloor>; r = y - of_int f
      in of_int (if r < 1 / 2 then f
                 else if r > 1 / 2 then f + 1
                 else if even f then f else f + 1) / 10)"

text \<open>
  The entry \<open>delta7\<close> of the dictionary \<open>get_user_snapshot\<close> returns: the last seven days
  against the seven days before, rounded to one decimal.
\<close>

definition get_user_snapshot_delta7 :: "umd_row list \<Rightarrow> int \<Rightarrow> int \<Rightarrow> date \<Rightarrow> real" where
  "get_user_snapshot_delta7 umd guild_id user_id today =
     (let t = toordinal today;
          sum_curr = sum_umd umd user_id guild_id (t - 6) t;
          sum_prev = sum_umd umd user_id guild_id (t - 13) (t - 7)
      in py_round1 (delta7 sum_curr sum_prev))"

section \<open>Alert engine (admin_commands.py)\<close>

record monitored_row =
  threshold :: "real option"
  added_at :: timestamp
  last_alert :: "timestamp option"

text \<open>
  What the chat platform answers during one check: whether the guild resolves, whether
  it has the channel of the bot and that channel accepts the message, whether the guild
  has an owner and the owner accepts a direct message.
\<close>

record platform =
  guild_found :: bool
  bot_channel :: bool
  channel_send_ok :: bool
  owner_found :: bool
  owner_send_ok :: bool

datatype target = ToChannel | ToOwner

text \<open>A notification: where it went, the user, the toxicity and the threshold it reports.\<close>

datatype notification = Notification target int real real

record alert_result =
  monitored_after :: "user_key \<rightharpoonup> monitored_row"
  sent :: "notification list"
  raised :: bool

text \<open>The threshold the check uses: the stored one, or 0.8 when it is null or zero.\<close>

definition effective_threshold :: "monitored_row \<Rightarrow> real" where
  "effective_threshold row = (case threshold row of None \<Rightarrow> 0.8 | Some t \<Rightarrow> if t = 0 then 0.8 else t)"

text \<open>
  \<open>check_toxicity_and_alert\<close>. \<open>now\<close> is the clock of the program, which the cooldown
  test reads; \<open>db_now\<close> is the clock of the database, which \<open>last_alert\<close> receives. The
  update of \<open>last_alert\<close> is committed before the guild is looked up. A failure of the
  send to the channel leaves the function as an exception; a failure of the message to
  the owner is swallowed.
\<close>

definition check_toxicity_and_alert ::
  "platform \<Rightarrow> timestamp \<Rightarrow> timestamp \<Rightarrow> int \<Rightarrow> int \<Rightarrow>
   (user_key \<rightharpoonup> monitored_row) \<Rightarrow> ai_table \<Rightarrow> alert_result" where
  "check_toxicity_and_alert plat now db_now guild_id user_id monitored ai =
     (let unchanged = \<lparr>monitored_after = monitored, sent = [], raised = False\<rparr>
      in case monitored (user_id, guild_id) of
           None \<Rightarrow> unchanged
         | Some row \<Rightarrow>
             let thr = effective_threshold row
             in case (case ai (user_id, guild_id) of None \<Rightarrow> None | Some a \<Rightarrow> toxicity_level a) of
                  None \<Rightarrow> unchanged
                | Some tox \<Rightarrow>
                    if tox < thr then unchanged
                    else if (case last_alert row of None \<Rightarrow> False | Some la \<Rightarrow> now - la < 2 * 3600)
                    then unchanged
                    else
                      let monitored' = monitored((user_id, guild_id) \<mapsto> row\<lparr>last_alert := Some db_now\<rparr>)
                      in if \<not> guild_found plat
                         then \<lparr>monitored_after = monitored', sent = [], raised = False\<rparr>
                         else if bot_channel plat
                         then (if channel_send_ok plat
                               then \<lparr>monitored_after = monitored',
                                     sent = [Notification ToChannel user_id tox thr], raised = False\<rparr>
                               else \<lparr>monitored_after = monitored', sent = [], raised = True\<rparr>)
                         else if owner_found plat \<and> owner_send_ok plat
                         then \<lparr>monitored_after = monitored',
                               sent = [Notification ToOwner user_id tox thr], raised = False\<rparr>
                         else \<lparr>monitored_after = monitored', sent = [], raised = False\<rparr>)"

text \<open>
  The condition of the specification for an alert: a monitored entry, a toxicity at or
  above the threshold, and no alert in the last two hours.
\<close>

definition alert_due ::
  "timestamp \<Rightarrow> int \<Rightarrow> int \<Rightarrow> (user_key \<rightharpoonup> monitored_row) \<Rightarrow> ai_table \<Rightarrow> bool" where
  "alert_due now guild_id user_id monitored ai =
     (case monitored (user_id, guild_id) of
        None \<Rightarrow> False
      | Some row \<Rightarrow>
          (case ai (user_id, guild_id) of
             None \<Rightarrow> False
           | Some a \<Rightarrow>
               (case toxicity_level a of
                  None \<Rightarrow> False
                | Some tox \<Rightarrow>
                    tox \<ge> effective_threshold row \<and>
                    (case last_alert row of None \<Rightarrow> True | Some la \<Rightarrow> now - la \<ge> 2 * 3600))))"

text \<open>
  The same condition read on the stored threshold itself, as the specification words
  it: the entry exists with a threshold, the stored toxicity is at or above it, and
  \<open>last_alert\<close> is null or at least two hours before the clock of the program.
\<close>

definition alert_condition ::
  "timestamp \<Rightarrow> int \<Rightarrow> int \<Rightarrow> (user_key \<rightharpoonup> monitored_row) \<Rightarrow> ai_table \<Rightarrow> bool" where
  "alert_condition now guild_id user_id monitored ai =
     (case monitored (user_id, guild_id) of
        None \<Rightarrow> False
      | Some row \<Rightarrow>
          (case (threshold row, ai (user_id, guild_id)) of
             (Some thr, Some a) \<Rightarrow>
               (case toxicity_level a of
                  None \<Rightarrow> False
                | Some tox \<Rightarrow>
                    tox \<ge> thr \<and>
                    (case last_alert row of None \<Rightarrow> True | Some la \<Rightarrow> now - la \<ge> 2 * 3600))
           | _ \<Rightarrow> False))"

text \<open>The platform delivers: the guild resolves and the channel, or else the owner, accepts.\<close>

definition delivers :: "platform \<Rightarrow> bool" where
  "delivers plat =
     (guild_found plat \<and>
      (if bot_channel plat then channel_send_ok plat else owner_found plat \<and> owner_send_ok plat))"

section \<open>Properties of the rank engine\<close>

lemma minmax_norm_bounds: "0 \<le> minmax_norm rnd values x \<and> minmax_norm rnd values x \<le> 100"
  by (simp add: minmax_norm_def Let_def)

lemma score_combined_bounds:
  assumes "0 \<le> e" "e \<le> 100"
  shows "0 \<le> score_combined e t \<and> score_combined e t \<le> 100"
  using assms by (auto simp: score_combined_def Let_def max_def min_def)

lemma minmax_norm_nondegenerate:
  assumes "ws \<noteq> []" and "Min (set ws) < Max (set ws)"
  shows "minmax_norm rnd ws x =
         max 0 (min 100 (rnd (rnd (rnd (x - Min (set ws)) * 100) / rnd (Max (set ws) - Min (set ws)))))"
proof -
  from assms(2) have "\<not> Max (set ws) \<le> Min (set ws)" by (simp only: not_le)
  with assms(1) show ?thesis
    unfolding minmax_norm_def Let_def by (simp only: if_False)
qed

lemma binary64_at:
  assumes lo: "2 powr of_int e \<le> \<bar>x\<bar>" and hi: "\<bar>x\<bar> < 2 powr (of_int e + 1)"
  shows "binary64 x =
         of_int (round_half_even (x / 2 powr (of_int e - 52))) * 2 powr (of_int e - 52)"
proof -
  have pos: "0 < \<bar>x\<bar>" using lo powr_gt_zero [of 2 "of_int e"] by linarith
  then have nz: "x \<noteq> 0" by auto
  have "\<lfloor>log 2 \<bar>x\<bar>\<rfloor> = e"
    using floor_log_eq_powr_iff [where b = 2 and x = "\<bar>x\<bar>" and k = e] pos lo hi by simp
  with nz show ?thesis by (simp add: binary64_def Let_def)
qed

lemma binary64_sub:
  "binary64 (3602879701896397 / 2251799813685248 - 3602879701896397 / 18014398509481984)
   = 6305039478318695 / 4503599627370496"
proof -
  have fl: "\<lfloor>25220157913274779 / 4 :: real\<rfloor> = 6305039478318694" by (simp add: floor_eq_iff)
  have r: "round_half_even (25220157913274779 / 4) = 6305039478318695"
    by (simp add: round_half_even_def Let_def fl)
  have p: "(2::real) powr (- 52) = 1 / 4503599627370496" by (simp add: powr_minus_divide)
  have v: "(3602879701896397 / 2251799813685248 - 3602879701896397 / 18014398509481984 :: real)
           = 25220157913274779 / 18014398509481984" by simp
  have "binary64 (25220157913274779 / 18014398509481984) =
        of_int (round_half_even (25220157913274779 / 18014398509481984 / 2 powr (of_int 0 - 52)))
          * 2 powr (of_int 0 - 52)"
    by (rule binary64_at) simp_all
  also have "\<dots> = of_int (round_half_even (25220157913274779 / 4)) / 4503599627370496"
    by (simp add: p)
  finally show ?thesis by (simp only: v r)
qed

lemma binary64_mul: "binary64 (6305039478318695 / 4503599627370496 * 100) = 140"
proof -
  have fl: "\<lfloor>157625986957967375 / 32 :: real\<rfloor> = 4925812092436480" by (simp add: floor_eq_iff)
  have r: "round_half_even (157625986957967375 / 32) = 4925812092436480"
    by (simp add: round_half_even_def Let_def fl)
  have p: "(2::real) powr (- 45) = 1 / 35184372088832" by (simp add: powr_minus_divide)
  have "binary64 (6305039478318695 / 4503599627370496 * 100) =
        of_int (round_half_even (6305039478318695 / 4503599627370496 * 100 / 2 powr (of_int 7 - 52)))
          * 2 powr (of_int 7 - 52)"
    by (rule binary64_at) simp_all
  also have "\<dots> = of_int (round_half_even (157625986957967375 / 32)) / 35184372088832"
    by (simp add: p)
  finally show ?thesis by (simp add: r)
qed

lemma binary64_div:
  "binary64 (140 / (6305039478318695 / 4503599627370496)) = 7036874417766399 / 70368744177664"
proof -
  have fl: "\<lfloor>8873554201597605810476922437632 / 1261007895663739 :: real\<rfloor> = 7036874417766399"
    by (simp add: floor_eq_iff)
  have r: "round_half_even (8873554201597605810476922437632 / 1261007895663739) = 7036874417766399"
    by (simp add: round_half_even_def Let_def fl)
  have p: "(2::real) powr (- 46) = 1 / 70368744177664" by (simp add: powr_minus_divide)
  have "binary64 (140 / (6305039478318695 / 4503599627370496)) =
        of_int (round_half_even (140 / (6305039478318695 / 4503599627370496) / 2 powr (of_int 6 - 52)))
          * 2 powr (of_int 6 - 52)"
    by (rule binary64_at) simp_all
  also have "\<dots> = of_int (round_half_even (8873554201597605810476922437632 / 1261007895663739))
                     / 70368744177664"
    by (simp add: p)
  finally show ?thesis by (simp add: r)
qed

lemma minmax_norm_tenths:
  "minmax_norm binary64 [3602879701896397 / 18014398509481984, 3602879701896397 / 2251799813685248]
     (3602879701896397 / 2251799813685248) = 7036874417766399 / 70368744177664"
proof -
  let ?a = "3602879701896397 / 18014398509481984 :: real"
  let ?b = "3602879701896397 / 2251799813685248 :: real"
  have m: "Min (set [?a, ?b]) = ?a" and M: "Max (set [?a, ?b]) = ?b" by simp_all
  have "minmax_norm binary64 [?a, ?b] ?b =
        max 0 (min 100 (binary64 (binary64 (binary64 (?b - Min (set [?a, ?b])) * 100)
                          / binary64 (Max (set [?a, ?b]) - Min (set [?a, ?b])))))"
    by (rule minmax_norm_nondegenerate) simp_all
  also have "\<dots> = max 0 (min 100 (7036874417766399 / 70368744177664))"
    by (simp only: m M binary64_sub binary64_mul binary64_div)
  also have "\<dots> = 7036874417766399 / 70368744177664" by simp
  finally show ?thesis .
qed

text \<open>
  Claim C2, as the code has it, whatever the rounding of the float operations.
  \<open>_minmax_norm\<close> gives 0, not 50, for an empty population, and \<open>cmd_rank\<close> then answers
  that there is no data, without a score. For a population that is not empty it gives 50
  to every member when all values are equal. When the values differ it gives exactly 0
  at the minimum (the rounding keeps 0). At the maximum it gives at most 100, and
  100 exactly when the rounded quotient \<open>(vmax - vmin) * 100 / (vmax - vmin)\<close> is not
  below 100, as it is in exact arithmetic.
\<close>

theorem minmax_norm_amended:
  "minmax_norm rnd [] x = 0 \<and> cmd_rank rnd [] uid = NoData \<and>
   (vs \<noteq> [] \<and> (\<forall>v\<in>set vs. v = c) \<longrightarrow> minmax_norm rnd vs x = 50) \<and>
   (ws \<noteq> [] \<and> Min (set ws) < Max (set ws) \<and> rnd 0 = 0 \<longrightarrow>
      minmax_norm rnd ws (Min (set ws)) = 0) \<and>
   (ws \<noteq> [] \<and> Min (set ws) < Max (set ws) \<longrightarrow>
      minmax_norm rnd ws (Max (set ws)) \<le> 100 \<and>
      (minmax_norm rnd ws (Max (set ws)) = 100 \<longleftrightarrow>
         100 \<le> rnd (rnd (rnd (Max (set ws) - Min (set ws)) * 100)
                    / rnd (Max (set ws) - Min (set ws)))) \<and>
      ((\<forall>y. rnd y = y) \<longrightarrow> minmax_norm rnd ws (Max (set ws)) = 100))"
proof (intro conjI impI)
  show "minmax_norm rnd [] x = 0" by (simp add: minmax_norm_def)
next
  show "cmd_rank rnd [] uid = NoData" by (simp add: cmd_rank_def)
next
  assume a: "vs \<noteq> [] \<and> (\<forall>v\<in>set vs. v = c)"
  then have "set vs = {c}" by (cases vs) auto
  with a show "minmax_norm rnd vs x = 50" by (simp add: minmax_norm_def)
next
  assume a: "ws \<noteq> [] \<and> Min (set ws) < Max (set ws) \<and> rnd 0 = 0"
  then have ne: "ws \<noteq> []" and lt: "Min (set ws) < Max (set ws)" by simp_all
  have "minmax_norm rnd ws (Min (set ws)) =
      max 0 (min 100 (rnd (rnd (rnd (Min (set ws) - Min (set ws)) * 100)
                        / rnd (Max (set ws) - Min (set ws)))))"
    by (rule minmax_norm_nondegenerate [OF ne lt])
  with a show "minmax_norm rnd ws (Min (set ws)) = 0" by simp
next
  show "minmax_norm rnd ws (Max (set ws)) \<le> 100"
    using minmax_norm_bounds by blast
next
  assume a: "ws \<noteq> [] \<and> Min (set ws) < Max (set ws)"
  then have ne: "ws \<noteq> []" and lt: "Min (set ws) < Max (set ws)" by simp_all
  have "minmax_norm rnd ws (Max (set ws)) =
      max 0 (min 100 (rnd (rnd (rnd (Max (set ws) - Min (set ws)) * 100)
                        / rnd (Max (set ws) - Min (set ws)))))"
    by (rule minmax_norm_nondegenerate [OF ne lt])
  then show "minmax_norm rnd ws (Max (set ws)) = 100 \<longleftrightarrow>
         100 \<le> rnd (rnd (rnd (Max (set ws) - Min (set ws)) * 100)
                    / rnd (Max (set ws) - Min (set ws)))"
    by (simp only:) (auto simp: max_def min_def)
next
  assume a: "ws \<noteq> [] \<and> Min (set ws) < Max (set ws)" and ex: "\<forall>y. rnd y = y"
  from a have ne: "ws \<noteq> []" and lt: "Min (set ws) < Max (set ws)" by simp_all
  have e: "minmax_norm rnd ws (Max (set ws)) =
      max 0 (min 100 (rnd (rnd (rnd (Max (set ws) - Min (set ws)) * 100)
                        / rnd (Max (set ws) - Min (set ws)))))"
    by (rule minmax_norm_nondegenerate [OF ne lt])
  from a have d: "Max (set ws) - Min (set ws) \<noteq> 0" by simp
  have "(Max (set ws) - Min (set ws)) * 100 / (Max (set ws) - Min (set ws)) = 100"
  proof -
    have "k \<noteq> 0 \<Longrightarrow> k * 100 / k = (100::real)" for k by simp
    from this [OF d] show ?thesis .
  qed
  with e ex show "minmax_norm rnd ws (Max (set ws)) = 100" by simp
qed

theorem minmax_norm_amended_witness:
  "minmax_norm binary64 [] 4 = 0 \<and> cmd_rank binary64 [] 9 = NoData \<and>
   minmax_norm binary64 [4, 4, 4] 4 = 50 \<and>
   minmax_norm binary64 [2, 10, 6] 2 = 0 \<and> minmax_norm binary64 [2, 10, 6] 10 \<le> 100 \<and>
   minmax_norm id [2, 10, 6] 10 = 100"
  using minmax_norm_amended [where rnd = binary64 and x = 4 and uid = 9 and vs = "[4, 4, 4]"
          and c = 4 and ws = "[2, 10, 6]"]
        minmax_norm_amended [where rnd = id and x = 4 and uid = 9 and vs = "[4, 4, 4]"
          and c = 4 and ws = "[2, 10, 6]"]
  by (simp add: binary64_def)

text \<open>
  The claim C2 as it is written fails twice. On the empty population the normalised
  score is 0 and the rank command computes none. And the maximum is not always mapped
  to 100: for the population of the floats 0.2 and 1.6 the three rounded operations
  give 99.99999999999999 at 1.6.
\<close>

theorem minmax_norm_not_as_claimed:
  "minmax_norm binary64 [] 7 \<noteq> 50 \<and> cmd_rank binary64 [] 1 = NoData \<and>
   minmax_norm binary64 [3602879701896397 / 18014398509481984, 3602879701896397 / 2251799813685248]
     (3602879701896397 / 2251799813685248) \<noteq> 100"
  by (simp add: minmax_norm_tenths) (simp add: minmax_norm_def cmd_rank_def)

lemma pick_tier_cases:
  "pick_tier s = (if s \<ge> 90 then TIERS ! 0 else if s \<ge> 80 then TIERS ! 1 else if s \<ge> 70 then TIERS ! 2
     else if s \<ge> 60 then TIERS ! 3 else if s \<ge> 45 then TIERS ! 4 else TIERS ! 5)"
  by (simp add: pick_tier_def TIERS_def)

lemma next_tier_cases:
  "next_tier s = (if s < 0 then Some (TIERS ! 5) else if s < 45 then Some (TIERS ! 4) else if s < 60 then Some (TIERS ! 3)
     else if s < 70 then Some (TIERS ! 2) else if s < 80 then Some (TIERS ! 1) else if s < 90 then Some (TIERS ! 0) else None)"
  by (simp add: next_tier_def TIERS_def)

text \<open>
  Claim C8. A composite score is never negative. For every score from 0 on, \<open>pick_tier\<close>
  returns a tier whose threshold the score reaches, and no tier with a higher threshold
  is reached; the next tier is absent exactly when the score is in the top tier, Mythic,
  and otherwise it is the tier of the lowest threshold among those above the score.
\<close>

theorem tier_assignment:
  "0 \<le> score_combined (minmax_norm rnd values x) tox \<and>
   (0 \<le> s \<longrightarrow>
      pick_tier s \<in> set TIERS \<and> min_score (pick_tier s) \<le> s \<and>
      (\<forall>t\<in>set TIERS. min_score t \<le> s \<longrightarrow> min_score t \<le> min_score (pick_tier s)) \<and>
      (next_tier s = None) = (name (pick_tier s) = ''Mythic'') \<and>
      (\<forall>n. next_tier s = Some n \<longrightarrow>
         n \<in> set TIERS \<and> s < min_score n \<and>
         (\<forall>t\<in>set TIERS. s < min_score t \<longrightarrow> min_score n \<le> min_score t)))"
proof (intro conjI impI)
  show "0 \<le> score_combined (minmax_norm rnd values x) tox"
    using score_combined_bounds [OF minmax_norm_bounds [THEN conjunct1] minmax_norm_bounds [THEN conjunct2]]
    by simp
next
  assume "0 \<le> s"
  then show "pick_tier s \<in> set TIERS"
    by (simp add: pick_tier_cases) (simp add: TIERS_def)
next
  assume "0 \<le> s"
  then show "min_score (pick_tier s) \<le> s"
    by (simp add: pick_tier_cases) (simp add: TIERS_def)
next
  assume "0 \<le> s"
  then show "\<forall>t\<in>set TIERS. min_score t \<le> s \<longrightarrow> min_score t \<le> min_score (pick_tier s)"
    by (simp add: pick_tier_cases) (simp add: TIERS_def)
next
  assume "0 \<le> s"
  then show "(next_tier s = None) = (name (pick_tier s) = ''Mythic'')"
    by (simp add: pick_tier_cases next_tier_cases) (simp add: TIERS_def)
next
  assume "0 \<le> s"
  then show "\<forall>n. next_tier s = Some n \<longrightarrow>
         n \<in> set TIERS \<and> s < min_score n \<and>
         (\<forall>t\<in>set TIERS. s < min_score t \<longrightarrow> min_score n \<le> min_score t)"
    by (simp add: next_tier_cases) (auto simp add: TIERS_def)
qed

theorem tier_assignment_witness:
  "pick_tier 72.5 = \<lparr>name = ''Platinum'', min_score = 70, color = 0x7fdbff\<rparr> \<and>
   next_tier 72.5 = Some \<lparr>name = ''Diamond'', min_score = 80, color = 0x00d2ff\<rparr> \<and>
   min_score (pick_tier 72.5) \<le> 72.5"
  using tier_assignment [of id "[]" 0 0 "72.5"]
  by (simp add: pick_tier_def next_tier_def TIERS_def)

section \<open>Properties of the content-signal aggregate\<close>

lemma strip_merde: "strip ''merde'' = ''merde''"
  by (simp add: strip_def is_space_def)

text \<open>
  Claim C1. The toxicity \<open>analyze_and_update\<close> stores for a user with a row is the
  asymmetric fusion of the stored value \<open>prev\<close> and the new reading \<open>new\<close>: with
  \<open>delta = new - prev\<close>, it is \<open>min 1 (prev + delta * 1.8)\<close> when \<open>delta > 0\<close> and
  \<open>max 0 (prev + delta * 0.3)\<close> otherwise. From 0.2 a reading of 0.9 gives 1, and from 0.8
  a reading of 0.1 gives 0.59.
\<close>

theorem toxicity_fusion:
  "fuse_toxicity (2/10) (9/10) = 1 \<and> fuse_toxicity (8/10) (1/10) = 59/100 \<and>
   (content \<noteq> [] \<and> 2 \<le> length (strip content) \<and>
    classify content = Some (ss, sl, new, ta, st) \<and>
    db (u, g) = Some r \<and> toxicity_level r = Some prev \<longrightarrow>
    (\<exists>r'. analyze_and_update classify now u g content db (u, g) = Some r' \<and>
          toxicity_level r' =
            Some (if new - prev > 0 then min 1 (prev + (new - prev) * 1.8)
                  else max 0 (prev + (new - prev) * 0.3))))"
  by (simp add: fuse_toxicity_def analyze_and_update_def Let_def)

theorem toxicity_fusion_witness:
  "\<exists>r'. analyze_and_update (\<lambda>c. Some (0, ''neutral'', 9/10, [], ''concise'')) 5 1 1 ''merde''
           [(1, 1) \<mapsto> \<lparr>toxicity_level = Some (2/10), dominant_sentiment = None,
                        topics_of_interest = None, communication_style = None,
                        last_analysis = 0\<rparr>] (1, 1) = Some r' \<and>
        toxicity_level r' = Some 1"
  using toxicity_fusion [of "''merde''" "\<lambda>c. Some (0, ''neutral'', 9/10, [], ''concise'')"
      0 "''neutral''" "9/10" "[]" "''concise''"
      "[(1, 1) \<mapsto> \<lparr>toxicity_level = Some (2/10), dominant_sentiment = None,
                        topics_of_interest = None, communication_style = None,
                        last_analysis = 0\<rparr>]" 1 1
      "\<lparr>toxicity_level = Some (2/10), dominant_sentiment = None,
                        topics_of_interest = None, communication_style = None,
                        last_analysis = 0\<rparr>" "2/10" 5]
  by (simp add: strip_merde)

text \<open>
  Claim C4 asks that a rebuild resets the four fields, replays the history on the reset
  row, and so ends in the same state when it is run again. In the code the reset stays
  in the session of the rebuild until its commit, while every replayed message is
  analysed in a session of its own, on the committed row. Here the user has one message
  and a row with a toxicity of 0.5, sentiment positive, one topic and style balanced.
  The first rebuild ends with the four defaults: the replay ran on the old values and
  the commit overwrote its result. The second rebuild starts from the defaults, so its
  commit has nothing to write, and it ends with the replayed values: toxicity 1 and
  style concise.
\<close>

theorem rebuild_twice_differs:
  "let classify = (\<lambda>c. Some (0, ''neutral'', 1, [], ''concise''));
       clock = (\<lambda>i. 100);
       msgs = [\<lparr>msg_user_id = 1, msg_guild_id = 1, message_content = Some ''merde'',
                msg_timestamp = 10\<rparr>];
       db0 = [(1, 1) \<mapsto> \<lparr>toxicity_level = Some (5/10), dominant_sentiment = Some ''positive'',
                topics_of_interest = Some [(''gaming'', 1)],
                communication_style = Some ''balanced'', last_analysis = 0\<rparr>]
   in case rebuild_ai_for_user classify clock 1 1 msgs db0 of
        None \<Rightarrow> False
      | Some db1 \<Rightarrow>
          db1 (1, 1) = Some \<lparr>toxicity_level = Some 0, dominant_sentiment = Some ''neutral'',
                topics_of_interest = Some [], communication_style = None,
                last_analysis = 100\<rparr> \<and>
          (case rebuild_ai_for_user classify clock 1 1 msgs db1 of
             None \<Rightarrow> False
           | Some db2 \<Rightarrow>
               db2 (1, 1) = Some \<lparr>toxicity_level = Some 1, dominant_sentiment = Some ''neutral'',
                topics_of_interest = Some [], communication_style = Some ''concise'',
                last_analysis = 100\<rparr>)"
  by (simp add: rebuild_ai_for_user_def analyze_and_update_def strip_merde flush_reset_def
      fuse_toxicity_def merge_topics_def Let_def)

section \<open>Properties of the engagement aggregate\<close>

declare streak_loop.simps [simp del]

lemma streak_loop_in: "d \<in> set ds \<Longrightarrow> streak_loop ds d s = streak_loop ds (d - 1) (s + 1)"
  by (subst streak_loop.simps) simp

lemma streak_loop_out: "d \<notin> set ds \<Longrightarrow> streak_loop ds d s = s"
  by (subst streak_loop.simps) simp

lemma toordinal_examples:
  "toordinal \<lparr>year = 2024, month = 2, day = 28\<rparr> = 738944"
  "toordinal \<lparr>year = 2024, month = 2, day = 29\<rparr> = 738945"
  "toordinal \<lparr>year = 2024, month = 3, day = 1\<rparr> = 738946"
  "toordinal \<lparr>year = 2024, month = 3, day = 2\<rparr> = 738947"
  "toordinal \<lparr>year = 2024, month = 3, day = 5\<rparr> = 738950"
  "toordinal \<lparr>year = 2024, month = 3, day = 9\<rparr> = 738954"
  "toordinal \<lparr>year = 2024, month = 3, day = 10\<rparr> = 738955"
  by (simp_all add: toordinal_def days_before_year_def days_before_month_def is_leap_def)

text \<open>
  Claim C3 asks for the number of consecutive active days ending today, also when the
  run began before the first day of the month. The code takes the days from the query
  of the current month. On 2 March 2024, for a user active on 28 and 29 February and on
  1 and 2 March, it stores a streak of 2, while the four days up to today are active and
  the day before them is not.
\<close>

theorem streak_stops_at_month_start:
  "let umd = [\<lparr>umd_user_id = 1, umd_guild_id = 1, umd_day = \<lparr>year = 2024, month = 2, day = 28\<rparr>, umd_count = 1\<rparr>,
              \<lparr>umd_user_id = 1, umd_guild_id = 1, umd_day = \<lparr>year = 2024, month = 2, day = 29\<rparr>, umd_count = 1\<rparr>,
              \<lparr>umd_user_id = 1, umd_guild_id = 1, umd_day = \<lparr>year = 2024, month = 3, day = 1\<rparr>, umd_count = 1\<rparr>,
              \<lparr>umd_user_id = 1, umd_guild_id = 1, umd_day = \<lparr>year = 2024, month = 3, day = 2\<rparr>, umd_count = 1\<rparr>];
       today = \<lparr>year = 2024, month = 3, day = 2\<rparr>
   in compute_active_days_and_streak umd 1 1 today = (2, 2) \<and>
      active_on umd 1 1 (toordinal today) \<and>
      active_on umd 1 1 (toordinal today - 1) \<and>
      active_on umd 1 1 (toordinal today - 2) \<and>
      active_on umd 1 1 (toordinal today - 3) \<and>
      \<not> active_on umd 1 1 (toordinal today - 4)"
  by (simp add: Let_def compute_active_days_and_streak_def active_on_def toordinal_examples
      streak_loop_in streak_loop_out)

lemma fold_mentioned_existing:
  "ue (u, g) = Some r \<Longrightarrow>
   fold (\<lambda>mid t. upsert_mentioned now dbn (mid, g) t) ms ue (u, g) =
     Some (r\<lparr>mentions_received := mentions_received r + int (count_list ms u),
             last_update := (if u \<in> set ms then dbn else last_update r)\<rparr>)"
proof (induction ms arbitrary: ue r)
  case Nil
  then show ?case by simp
next
  case (Cons m ms)
  show ?case
  proof (cases "m = u")
    case True
    let ?r = "r\<lparr>mentions_received := mentions_received r + 1, last_update := dbn\<rparr>"
    have "upsert_mentioned now dbn (m, g) ue (u, g) = Some ?r"
      using Cons.prems True by (simp add: upsert_mentioned_def)
    from Cons.IH [where ue = "upsert_mentioned now dbn (m, g) ue" and r = ?r, OF this] True
    show ?thesis by simp
  next
    case False
    have "upsert_mentioned now dbn (m, g) ue (u, g) = Some r"
      using Cons.prems False by (simp add: upsert_mentioned_def split: option.splits)
    from Cons.IH [where ue = "upsert_mentioned now dbn (m, g) ue" and r = r, OF this] False
    show ?thesis by simp
  qed
qed

lemma fold_mentioned_absent:
  "ue (u, g) = None \<Longrightarrow>
   fold (\<lambda>mid t. upsert_mentioned now dbn (mid, g) t) ms ue (u, g) =
     (if u \<in> set ms
      then Some \<lparr>mentions_made = 0, mentions_received = int (count_list ms u),
                 threads_created = 0, invitations_sent = 0, active_days_in_month = 0,
                 streak_days = 0, engagement_score = 0,
                 last_update = (if count_list ms u = 1 then now else dbn)\<rparr>
      else None)"
proof (induction ms arbitrary: ue)
  case Nil
  then show ?case by simp
next
  case (Cons m ms)
  show ?case
  proof (cases "m = u")
    case True
    let ?r = "\<lparr>mentions_made = 0, mentions_received = 1, threads_created = 0,
                invitations_sent = 0, active_days_in_month = 0, streak_days = 0,
                engagement_score = 0, last_update = now\<rparr>"
    have "upsert_mentioned now dbn (m, g) ue (u, g) = Some ?r"
      using Cons.prems True by (simp add: upsert_mentioned_def)
    from fold_mentioned_existing
           [where ue = "upsert_mentioned now dbn (m, g) ue" and u = u and g = g and r = ?r
              and now = now and dbn = dbn and ms = ms, OF this]
    show ?thesis using True count_list_0_iff [of ms u] by auto
  next
    case False
    have "upsert_mentioned now dbn (m, g) ue (u, g) = None"
      using Cons.prems False by (simp add: upsert_mentioned_def split: option.splits)
    from Cons.IH [where ue = "upsert_mentioned now dbn (m, g) ue", OF this] False
    show ?thesis by simp
  qed
qed

lemma upsert_author_other:
  "k' \<noteq> k \<Longrightarrow> upsert_author k inc ad st sc now dbn ue k' = ue k'"
  by (simp add: upsert_author_def split: option.splits)

lemma upsert_author_self:
  "\<exists>r. upsert_author k inc ad st sc now dbn ue k = Some r \<and>
       engagement_score r = sc \<and> active_days_in_month r = ad \<and> streak_days r = st"
  by (simp add: upsert_author_def split: option.splits)

text \<open>
  Claim C5. After \<open>process_message_engagement\<close> the row of the author holds the score
  0.5 * messages + 1.0 * reactions received + 0.2 * reactions made + 3.0 * active days +
  2.0 * streak, computed from the activity row and the daily counters alone, whatever the
  row held before. For 10 messages, 5 reactions received, 2 made, 3 active days and a
  streak of 2 the score is 23.4.
\<close>

theorem engagement_score_recomputed:
  "engagement_score_of 10 2 5 3 2 = 234 / 10 \<and>
   (\<exists>r. user_engagement (process_message_engagement a g ms nm av now dbn today db) (a, g) = Some r \<and>
        engagement_score r =
          (let (messages, made, recv) = safe_activity (user_activity db) a g;
               (active_days, streak) =
                  compute_active_days_and_streak (user_message_daily db) a g today
           in 0.5 * real_of_int messages + 1.0 * real_of_int recv + 0.2 * real_of_int made
              + 3.0 * real_of_int active_days + 2.0 * real_of_int streak))"
proof
  show "engagement_score_of 10 2 5 3 2 = 234 / 10"
    by (simp add: engagement_score_of_def)
next
  obtain messages made recv where sa: "safe_activity (user_activity db) a g = (messages, made, recv)"
    by (cases "safe_activity (user_activity db) a g") auto
  obtain ad st where cs: "compute_active_days_and_streak (user_message_daily db) a g today = (ad, st)"
    by (cases "compute_active_days_and_streak (user_message_daily db) a g today") auto
  let ?sc = "engagement_score_of messages made recv ad st"
  obtain r1 where r1: "upsert_author (a, g) (int (length ms)) ad st ?sc now dbn (user_engagement db) (a, g) = Some r1"
    and sc1: "engagement_score r1 = ?sc"
    using upsert_author_self by blast
  from fold_mentioned_existing
         [where ue = "upsert_author (a, g) (int (length ms)) ad st ?sc now dbn (user_engagement db)"
            and u = a and g = g and r = r1, OF r1]
  obtain r where r: "user_engagement (process_message_engagement a g ms nm av now dbn today db) (a, g) = Some r"
    and sc: "engagement_score r = ?sc"
    using sc1 by (simp add: process_message_engagement_def Let_def sa cs)
  have "?sc = (let (messages, made, recv) = safe_activity (user_activity db) a g;
               (active_days, streak) =
                  compute_active_days_and_streak (user_message_daily db) a g today
           in 0.5 * real_of_int messages + 1.0 * real_of_int recv + 0.2 * real_of_int made
              + 3.0 * real_of_int active_days + 2.0 * real_of_int streak)"
    by (simp add: sa cs engagement_score_of_def)
  with r sc show "\<exists>r. user_engagement (process_message_engagement a g ms nm av now dbn today db) (a, g) = Some r \<and>
        engagement_score r =
          (let (messages, made, recv) = safe_activity (user_activity db) a g;
               (active_days, streak) =
                  compute_active_days_and_streak (user_message_daily db) a g today
           in 0.5 * real_of_int messages + 1.0 * real_of_int recv + 0.2 * real_of_int made
              + 3.0 * real_of_int active_days + 2.0 * real_of_int streak)"
    by (intro exI [of _ r] conjI) (assumption, simp only:)
qed

theorem engagement_score_recomputed_witness:
  "\<exists>r. user_engagement
         (process_message_engagement 1 1 [2] None None 50 60 \<lparr>year = 2024, month = 3, day = 10\<rparr>
            \<lparr>users = Map.empty,
             user_activity = [(1, 1) \<mapsto> \<lparr>message_count = Some 10, reaction_count = Some 2,
                                          received_reactions = Some 5\<rparr>],
             user_message_daily =
               [\<lparr>umd_user_id = 1, umd_guild_id = 1, umd_day = \<lparr>year = 2024, month = 3, day = 5\<rparr>, umd_count = 4\<rparr>,
                \<lparr>umd_user_id = 1, umd_guild_id = 1, umd_day = \<lparr>year = 2024, month = 3, day = 9\<rparr>, umd_count = 1\<rparr>,
                \<lparr>umd_user_id = 1, umd_guild_id = 1, umd_day = \<lparr>year = 2024, month = 3, day = 10\<rparr>, umd_count = 2\<rparr>],
             user_engagement = Map.empty\<rparr>) (1, 1) = Some r \<and>
       engagement_score r = 234 / 10"
  using engagement_score_recomputed [of 1 1 "[2]" None None 50 60
      "\<lparr>year = 2024, month = 3, day = 10\<rparr>"
      "\<lparr>users = Map.empty,
             user_activity = [(1, 1) \<mapsto> \<lparr>message_count = Some 10, reaction_count = Some 2,
                                          received_reactions = Some 5\<rparr>],
             user_message_daily =
               [\<lparr>umd_user_id = 1, umd_guild_id = 1, umd_day = \<lparr>year = 2024, month = 3, day = 5\<rparr>, umd_count = 4\<rparr>,
                \<lparr>umd_user_id = 1, umd_guild_id = 1, umd_day = \<lparr>year = 2024, month = 3, day = 9\<rparr>, umd_count = 1\<rparr>,
                \<lparr>umd_user_id = 1, umd_guild_id = 1, umd_day = \<lparr>year = 2024, month = 3, day = 10\<rparr>, umd_count = 2\<rparr>],
             user_engagement = Map.empty\<rparr>"]
  by (simp add: safe_activity_def compute_active_days_and_streak_def toordinal_examples
      streak_loop_in streak_loop_out Let_def)

text \<open>
  Claim C9. For a user other than the author, the update touches the mention count
  and the time stamp only. With an engagement row, \<open>mentions_received\<close> grows by one
  for each occurrence of the user in the list of mentions, so by exactly one for a user
  mentioned once, \<open>last_update\<close> is stamped when there is one, and the score, the streak,
  the active days and the other counters keep their values. Without a row, a mentioned
  user gets one whose \<open>mentions_received\<close> is the number of occurrences (1 for a user
  mentioned once) and whose score, streak, active days and other counters are 0, and
  a user who is not mentioned still has none. The metrics are computed for the author
  only.
\<close>

theorem mention_frame:
  "(mid \<noteq> a \<and> user_engagement db (mid, g) = Some r \<longrightarrow>
      user_engagement (process_message_engagement a g ms nm av now dbn today db) (mid, g) =
        Some (r\<lparr>mentions_received := mentions_received r + int (count_list ms mid),
                last_update := (if mid \<in> set ms then dbn else last_update r)\<rparr>)) \<and>
   (mid \<noteq> a \<and> user_engagement db (mid, g) = Some r \<and> count_list ms mid = 1 \<longrightarrow>
      user_engagement (process_message_engagement a g ms nm av now dbn today db) (mid, g) =
        Some (r\<lparr>mentions_received := mentions_received r + 1, last_update := dbn\<rparr>)) \<and>
   (mid \<noteq> a \<and> user_engagement db (mid, g) = None \<longrightarrow>
      user_engagement (process_message_engagement a g ms nm av now dbn today db) (mid, g) =
        (if mid \<in> set ms
         then Some \<lparr>mentions_made = 0, mentions_received = int (count_list ms mid),
                    threads_created = 0, invitations_sent = 0, active_days_in_month = 0,
                    streak_days = 0, engagement_score = 0,
                    last_update = (if count_list ms mid = 1 then now else dbn)\<rparr>
         else None))"
proof -
  have general:
    "user_engagement (process_message_engagement a g ms nm av now dbn today db) (mid, g) =
       Some (r\<lparr>mentions_received := mentions_received r + int (count_list ms mid),
               last_update := (if mid \<in> set ms then dbn else last_update r)\<rparr>)"
    if h: "mid \<noteq> a \<and> user_engagement db (mid, g) = Some r"
  proof -
    from h have "upsert_author (a, g) inc ad st sc now dbn (user_engagement db) (mid, g) = Some r"
      for inc ad st sc
      by (simp add: upsert_author_other)
    from fold_mentioned_existing
           [where ue = "upsert_author (a, g) inc ad st sc now dbn (user_engagement db)"
              and u = mid and g = g and r = r for inc ad st sc, OF this]
    show ?thesis
      by (simp add: process_message_engagement_def Let_def split: prod.splits)
  qed
  have fresh:
    "user_engagement (process_message_engagement a g ms nm av now dbn today db) (mid, g) =
        (if mid \<in> set ms
         then Some \<lparr>mentions_made = 0, mentions_received = int (count_list ms mid),
                    threads_created = 0, invitations_sent = 0, active_days_in_month = 0,
                    streak_days = 0, engagement_score = 0,
                    last_update = (if count_list ms mid = 1 then now else dbn)\<rparr>
         else None)"
    if h: "mid \<noteq> a \<and> user_engagement db (mid, g) = None"
  proof -
    from h have "upsert_author (a, g) inc ad st sc now dbn (user_engagement db) (mid, g) = None"
      for inc ad st sc
      by (simp add: upsert_author_other)
    from fold_mentioned_absent
           [where ue = "upsert_author (a, g) inc ad st sc now dbn (user_engagement db)"
              and u = mid and g = g for inc ad st sc, OF this]
    show ?thesis
      by (simp add: process_message_engagement_def Let_def split: prod.splits)
  qed
  have once: "mid \<in> set ms" if "count_list ms mid = 1"
    using that count_list_0_iff [of ms mid] by auto
  show ?thesis
  proof (intro conjI impI)
    assume "mid \<noteq> a \<and> user_engagement db (mid, g) = Some r"
    then show "user_engagement (process_message_engagement a g ms nm av now dbn today db) (mid, g) =
        Some (r\<lparr>mentions_received := mentions_received r + int (count_list ms mid),
                last_update := (if mid \<in> set ms then dbn else last_update r)\<rparr>)"
      by (rule general)
  next
    assume h: "mid \<noteq> a \<and> user_engagement db (mid, g) = Some r \<and> count_list ms mid = 1"
    then have "mid \<noteq> a \<and> user_engagement db (mid, g) = Some r" by simp
    from general [OF this] h once
    show "user_engagement (process_message_engagement a g ms nm av now dbn today db) (mid, g) =
        Some (r\<lparr>mentions_received := mentions_received r + 1, last_update := dbn\<rparr>)"
      by simp
  next
    assume "mid \<noteq> a \<and> user_engagement db (mid, g) = None"
    then show "user_engagement (process_message_engagement a g ms nm av now dbn today db) (mid, g) =
        (if mid \<in> set ms
         then Some \<lparr>mentions_made = 0, mentions_received = int (count_list ms mid),
                    threads_created = 0, invitations_sent = 0, active_days_in_month = 0,
                    streak_days = 0, engagement_score = 0,
                    last_update = (if count_list ms mid = 1 then now else dbn)\<rparr>
         else None)"
      by (rule fresh)
  qed
qed

theorem mention_frame_witness:
  "user_engagement
     (process_message_engagement 1 1 [2, 3] None None 50 60 \<lparr>year = 2024, month = 3, day = 10\<rparr>
        \<lparr>users = Map.empty, user_activity = Map.empty, user_message_daily = [],
         user_engagement =
           [(2, 1) \<mapsto> \<lparr>mentions_made = 4, mentions_received = 6, threads_created = 1,
                          invitations_sent = 0, active_days_in_month = 5, streak_days = 3,
                          engagement_score = 63 / 2, last_update = 10\<rparr>]\<rparr>) (2, 1)
   = Some \<lparr>mentions_made = 4, mentions_received = 7, threads_created = 1,
            invitations_sent = 0, active_days_in_month = 5, streak_days = 3,
            engagement_score = 63 / 2, last_update = 60\<rparr> \<and>
   user_engagement
     (process_message_engagement 1 1 [2, 3] None None 50 60 \<lparr>year = 2024, month = 3, day = 10\<rparr>
        \<lparr>users = Map.empty, user_activity = Map.empty, user_message_daily = [],
         user_engagement =
           [(2, 1) \<mapsto> \<lparr>mentions_made = 4, mentions_received = 6, threads_created = 1,
                          invitations_sent = 0, active_days_in_month = 5, streak_days = 3,
                          engagement_score = 63 / 2, last_update = 10\<rparr>]\<rparr>) (3, 1)
   = Some \<lparr>mentions_made = 0, mentions_received = 1, threads_created = 0,
            invitations_sent = 0, active_days_in_month = 0, streak_days = 0,
            engagement_score = 0, last_update = 50\<rparr>"
  using mention_frame [where mid = 2 and a = 1 and g = 1 and ms = "[2, 3]" and nm = None
      and av = None and now = 50 and dbn = 60
      and today = "\<lparr>year = 2024, month = 3, day = 10\<rparr>"
      and r = "\<lparr>mentions_made = 4, mentions_received = 6, threads_created = 1,
                          invitations_sent = 0, active_days_in_month = 5, streak_days = 3,
                          engagement_score = 63 / 2, last_update = 10\<rparr>"
      and db = "\<lparr>users = Map.empty, user_activity = Map.empty, user_message_daily = [],
         user_engagement =
           [(2, 1) \<mapsto> \<lparr>mentions_made = 4, mentions_received = 6, threads_created = 1,
                          invitations_sent = 0, active_days_in_month = 5, streak_days = 3,
                          engagement_score = 63 / 2, last_update = 10\<rparr>]\<rparr>"]
    mention_frame [where mid = 3 and a = 1 and g = 1 and ms = "[2, 3]" and nm = None
      and av = None and now = 50 and dbn = 60
      and today = "\<lparr>year = 2024, month = 3, day = 10\<rparr>"
      and db = "\<lparr>users = Map.empty, user_activity = Map.empty, user_message_daily = [],
         user_engagement =
           [(2, 1) \<mapsto> \<lparr>mentions_made = 4, mentions_received = 6, threads_created = 1,
                          invitations_sent = 0, active_days_in_month = 5, streak_days = 3,
                          engagement_score = 63 / 2, last_update = 10\<rparr>]\<rparr>"]
  by simp

section \<open>Properties of the snapshot\<close>

lemma py_round1_near: "\<bar>py_round1 x - x\<bar> \<le> 1 / 20"
proof -
  define y where "y = x * 10"
  define f where "f = \<lfloor>y\<rfloor>"
  define r where "r = y - of_int f"
  have r0: "0 \<le> r" and r1: "r < 1" unfolding r_def f_def by linarith+
  have x: "x = (of_int f + r) / 10" unfolding r_def y_def by simp
  have pr: "py_round1 x = of_int (if r < 1 / 2 then f
                 else if r > 1 / 2 then f + 1
                 else if even f then f else f + 1) / 10"
    unfolding py_round1_def Let_def r_def f_def y_def by simp
  have "\<bar>of_int (if r < 1 / 2 then f
                 else if r > 1 / 2 then f + 1
                 else if even f then f else f + 1) / 10 - (of_int f + r) / 10\<bar> \<le> 1 / 20"
    using r0 r1 by (auto simp: abs_if field_simps)
  then show ?thesis using pr x by (simp only:)
qed

lemma py_round1_tenth: "\<exists>k::int. py_round1 x = of_int k / 10"
  unfolding py_round1_def Let_def by blast

lemma py_round1_of_int: "py_round1 (of_int n) = of_int n"
proof -
  have "\<lfloor>(of_int n :: real) * 10\<rfloor> = n * 10"
    by (metis floor_of_int of_int_mult of_int_numeral)
  then show ?thesis by (simp add: py_round1_def Let_def)
qed

lemma delta7_exact:
  "0 \<le> p \<Longrightarrow> delta7 c p =
     (if c = 0 \<and> p = 0 then 0 else if p = 0 then 100
      else (real_of_int c - real_of_int p) / real_of_int p * 100)"
  by (simp add: delta7_def max_def)

lemma py_round1_third: "py_round1 (100 / 3) = 333 / 10"
proof -
  have "\<lfloor>(100 / 3 * 10 :: real)\<rfloor> = 333" by (simp add: floor_eq_iff)
  then show ?thesis by (simp add: py_round1_def Let_def)
qed

text \<open>
  Claim C7, as the code has it. The snapshot holds the trend rounded to one decimal:
  for window sums that are not negative it is the rounding of
  \<open>(curr7 - prev7) / prev7 * 100\<close>, of 0 when both windows are empty and of 100 when
  only the previous one is, and so lies within 0.05 of that value. The three values
  of the specification, 0, 100 and -50, are exact.
\<close>

theorem trend_rounded:
  "py_round1 (delta7 0 0) = 0 \<and> py_round1 (delta7 5 0) = 100 \<and> py_round1 (delta7 5 10) = - 50 \<and>
   (let t = toordinal today;
        c = sum_umd umd u g (t - 6) t;
        p = sum_umd umd u g (t - 13) (t - 7);
        exact = (if c = 0 \<and> p = 0 then 0 else if p = 0 then 100
                 else (real_of_int c - real_of_int p) / real_of_int p * 100)
    in 0 \<le> c \<and> 0 \<le> p \<longrightarrow>
         get_user_snapshot_delta7 umd g u today = py_round1 exact \<and>
         \<bar>get_user_snapshot_delta7 umd g u today - exact\<bar> \<le> 1 / 20)"
proof (intro conjI)
  show "py_round1 (delta7 0 0) = 0" using py_round1_of_int [of 0] by (simp add: delta7_def)
  show "py_round1 (delta7 5 0) = 100" using py_round1_of_int [of 100] by (simp add: delta7_def)
  show "py_round1 (delta7 5 10) = - 50" using py_round1_of_int [of "- 50"] by (simp add: delta7_def)
  show "let t = toordinal today;
        c = sum_umd umd u g (t - 6) t;
        p = sum_umd umd u g (t - 13) (t - 7);
        exact = (if c = 0 \<and> p = 0 then 0 else if p = 0 then 100
                 else (real_of_int c - real_of_int p) / real_of_int p * 100)
    in 0 \<le> c \<and> 0 \<le> p \<longrightarrow>
         get_user_snapshot_delta7 umd g u today = py_round1 exact \<and>
         \<bar>get_user_snapshot_delta7 umd g u today - exact\<bar> \<le> 1 / 20"
    unfolding Let_def get_user_snapshot_delta7_def
    using py_round1_near by (auto simp: delta7_exact simp del: of_int_diff)
qed

theorem trend_rounded_witness:
  "let umd = [\<lparr>umd_user_id = 1, umd_guild_id = 1, umd_day = \<lparr>year = 2024, month = 3, day = 1\<rparr>, umd_count = 10\<rparr>,
              \<lparr>umd_user_id = 1, umd_guild_id = 1, umd_day = \<lparr>year = 2024, month = 3, day = 10\<rparr>, umd_count = 5\<rparr>];
       today = \<lparr>year = 2024, month = 3, day = 10\<rparr>
   in get_user_snapshot_delta7 umd 1 1 today = - 50"
  using trend_rounded [of "\<lparr>year = 2024, month = 3, day = 10\<rparr>"
     "[\<lparr>umd_user_id = 1, umd_guild_id = 1, umd_day = \<lparr>year = 2024, month = 3, day = 1\<rparr>, umd_count = 10\<rparr>,
              \<lparr>umd_user_id = 1, umd_guild_id = 1, umd_day = \<lparr>year = 2024, month = 3, day = 10\<rparr>, umd_count = 5\<rparr>]" 1 1]
    py_round1_of_int [of "- 50"]
  by (simp add: Let_def sum_umd_def toordinal_examples)

text \<open>
  The claim C7 as it is written fails where the quotient has more than one decimal:
  with 3 messages in the previous window and 4 in the current one the snapshot holds
  33.3, not 100 / 3.
\<close>

theorem trend_not_exact:
  "let umd = [\<lparr>umd_user_id = 1, umd_guild_id = 1, umd_day = \<lparr>year = 2024, month = 3, day = 1\<rparr>, umd_count = 3\<rparr>,
              \<lparr>umd_user_id = 1, umd_guild_id = 1, umd_day = \<lparr>year = 2024, month = 3, day = 10\<rparr>, umd_count = 4\<rparr>];
       today = \<lparr>year = 2024, month = 3, day = 10\<rparr>;
       t = toordinal today
   in sum_umd umd 1 1 (t - 6) t = 4 \<and> sum_umd umd 1 1 (t - 13) (t - 7) = 3 \<and>
      get_user_snapshot_delta7 umd 1 1 today = 333 / 10 \<and>
      get_user_snapshot_delta7 umd 1 1 today \<noteq> (4 - 3) / 3 * 100"
  by (simp add: Let_def get_user_snapshot_delta7_def sum_umd_def toordinal_examples delta7_def py_round1_third)

section \<open>Properties of the alert engine\<close>

lemma check_not_due:
  "\<not> alert_due now g u monitored ai \<Longrightarrow>
   check_toxicity_and_alert plat now db_now g u monitored ai =
     \<lparr>monitored_after = monitored, sent = [], raised = False\<rparr>"
  by (auto simp: check_toxicity_and_alert_def alert_due_def Let_def split: option.splits)

lemma check_due_store:
  "alert_due now g u monitored ai \<Longrightarrow>
   \<exists>row. monitored (u, g) = Some row \<and>
     monitored_after (check_toxicity_and_alert plat now db_now g u monitored ai) =
       monitored((u, g) \<mapsto> row\<lparr>last_alert := Some db_now\<rparr>)"
  by (auto simp: check_toxicity_and_alert_def alert_due_def Let_def split: option.splits)

lemma check_due_sent:
  "alert_due now g u monitored ai \<Longrightarrow>
   \<exists>tox thr. sent (check_toxicity_and_alert plat now db_now g u monitored ai) =
     (if delivers plat
      then [Notification (if bot_channel plat then ToChannel else ToOwner) u tox thr]
      else [])"
  by (auto simp: check_toxicity_and_alert_def alert_due_def delivers_def Let_def
      split: option.splits)

lemma check_sent_iff:
  "sent (check_toxicity_and_alert plat now db_now g u monitored ai) \<noteq> []
   \<longleftrightarrow> alert_due now g u monitored ai \<and> delivers plat"
proof (cases "alert_due now g u monitored ai")
  case True
  from check_due_sent [OF True, of plat db_now] show ?thesis using True
    by (cases "delivers plat") auto
next
  case False
  from check_not_due [OF False, of plat db_now] show ?thesis using False by simp
qed

lemma check_sent_length:
  "length (sent (check_toxicity_and_alert plat now db_now g u monitored ai))
   = (if alert_due now g u monitored ai \<and> delivers plat then 1 else 0)"
proof (cases "alert_due now g u monitored ai")
  case True
  from check_due_sent [OF True, of plat db_now] show ?thesis using True
    by (cases "delivers plat") auto
next
  case False
  from check_not_due [OF False, of plat db_now] show ?thesis using False by simp
qed

lemma alert_condition_due:
  assumes "\<forall>row. monitored (u, g) = Some row \<longrightarrow> threshold row \<noteq> None \<and> threshold row \<noteq> Some 0"
  shows "alert_condition now g u monitored ai = alert_due now g u monitored ai"
proof (cases "monitored (u, g)")
  case None
  then show ?thesis by (simp add: alert_condition_def alert_due_def)
next
  case (Some row)
  with assms obtain thr where "threshold row = Some thr" and "thr \<noteq> 0"
    by (cases "threshold row") auto
  with Some show ?thesis
    by (simp add: alert_condition_def alert_due_def effective_threshold_def split: option.splits)
qed

lemma two_breaches:
  assumes m: "monitored (u, g) = Some row" and th: "threshold row = Some thr" "thr \<noteq> 0"
    and la: "last_alert row = None"
    and ra: "ai_a (u, g) = Some ra" "toxicity_level ra = Some tox_a" "tox_a \<ge> thr"
    and rb: "ai_b (u, g) = Some rb" "toxicity_level rb = Some tox_b" "tox_b \<ge> thr"
    and d: "delivers plat_a" "delivers plat_b"
  shows "(let r1 = check_toxicity_and_alert plat_a now_a db_a g u monitored ai_a;
              r2 = check_toxicity_and_alert plat_b now_b db_b g u (monitored_after r1) ai_b
          in length (sent r1 @ sent r2)) = (if now_b - db_a < 2 * 3600 then 1 else 2)"
proof -
  have due1: "alert_due now_a g u monitored ai_a"
    using m th la ra by (simp add: alert_due_def effective_threshold_def)
  from check_due_store [OF due1, of plat_a db_a] m
  have after: "monitored_after (check_toxicity_and_alert plat_a now_a db_a g u monitored ai_a) (u, g)
       = Some (row\<lparr>last_alert := Some db_a\<rparr>)" by simp
  have due2: "alert_due now_b g u
                (monitored_after (check_toxicity_and_alert plat_a now_a db_a g u monitored ai_a)) ai_b
       \<longleftrightarrow> \<not> now_b - db_a < 2 * 3600"
    using after th rb by (simp add: alert_due_def effective_threshold_def not_less)
  show ?thesis
    unfolding Let_def length_append check_sent_length using due1 due2 d by simp
qed

text \<open>
  Claim C6, as the code has it, for a monitored entry with a stored threshold other
  than 0. A check records an alert, setting \<open>last_alert\<close> to the current time of the
  database, exactly when the user is monitored, the stored toxicity reaches the
  threshold and \<open>last_alert\<close> is null or at least two hours behind the clock of the
  program; otherwise the monitored table is left as it is and nothing is sent, so a
  reading below the threshold never modifies \<open>last_alert\<close> and a missing entry is a
  no-op. A notification goes out exactly when an alert is recorded and the platform
  delivers. With a platform that delivers, a first breach notifies, and a second one
  notifies exactly when the clock of the program then reads at least two hours past the
  time of the database recorded at the first: when the two clocks agree, two breaches
  90 minutes apart give one notification and two breaches three hours apart give two.
\<close>

theorem alert_decision:
  "((\<forall>row. monitored (u, g) = Some row \<longrightarrow> threshold row \<noteq> None \<and> threshold row \<noteq> Some 0) \<longrightarrow>
    (let res = check_toxicity_and_alert plat now db_now g u monitored ai
     in (sent res \<noteq> [] \<longleftrightarrow> alert_condition now g u monitored ai \<and> delivers plat) \<and>
        (alert_condition now g u monitored ai \<longrightarrow>
           (\<exists>row. monitored (u, g) = Some row \<and>
              monitored_after res = monitored((u, g) \<mapsto> row\<lparr>last_alert := Some db_now\<rparr>))) \<and>
        (\<not> alert_condition now g u monitored ai \<longrightarrow>
           monitored_after res = monitored \<and> sent res = []))) \<and>
   (monitored (u, g) = Some row \<and> threshold row = Some thr \<and> thr \<noteq> 0 \<and>
    last_alert row = None \<and>
    ai_a (u, g) = Some ra \<and> toxicity_level ra = Some tox_a \<and> tox_a \<ge> thr \<and>
    ai_b (u, g) = Some rb \<and> toxicity_level rb = Some tox_b \<and> tox_b \<ge> thr \<and>
    delivers plat_a \<and> delivers plat_b \<longrightarrow>
    (let r1 = check_toxicity_and_alert plat_a now_a db_a g u monitored ai_a;
         r2 = check_toxicity_and_alert plat_b now_b db_b g u (monitored_after r1) ai_b
     in length (sent r1 @ sent r2)) = (if now_b - db_a < 2 * 3600 then 1 else 2))"
proof (intro conjI impI)
  assume h: "\<forall>row. monitored (u, g) = Some row \<longrightarrow> threshold row \<noteq> None \<and> threshold row \<noteq> Some 0"
  have c: "alert_condition now g u monitored ai = alert_due now g u monitored ai"
    by (rule alert_condition_due [where monitored = monitored and u = u and g = g, OF h])
  show "let res = check_toxicity_and_alert plat now db_now g u monitored ai
     in (sent res \<noteq> [] \<longleftrightarrow> alert_condition now g u monitored ai \<and> delivers plat) \<and>
        (alert_condition now g u monitored ai \<longrightarrow>
           (\<exists>row. monitored (u, g) = Some row \<and>
              monitored_after res = monitored((u, g) \<mapsto> row\<lparr>last_alert := Some db_now\<rparr>))) \<and>
        (\<not> alert_condition now g u monitored ai \<longrightarrow>
           monitored_after res = monitored \<and> sent res = [])"
    unfolding Let_def c using check_sent_iff check_due_store check_not_due
    by (metis alert_result.select_convs(1) alert_result.select_convs(2))
next
  assume "monitored (u, g) = Some row \<and> threshold row = Some thr \<and> thr \<noteq> 0 \<and>
    last_alert row = None \<and>
    ai_a (u, g) = Some ra \<and> toxicity_level ra = Some tox_a \<and> tox_a \<ge> thr \<and>
    ai_b (u, g) = Some rb \<and> toxicity_level rb = Some tox_b \<and> tox_b \<ge> thr \<and>
    delivers plat_a \<and> delivers plat_b"
  then show "(let r1 = check_toxicity_and_alert plat_a now_a db_a g u monitored ai_a;
         r2 = check_toxicity_and_alert plat_b now_b db_b g u (monitored_after r1) ai_b
     in length (sent r1 @ sent r2)) = (if now_b - db_a < 2 * 3600 then 1 else 2)"
    using two_breaches by blast
qed

theorem alert_decision_witness:
  "let monitored = [(7, 1) \<mapsto> \<lparr>threshold = Some (8 / 10), added_at = 0, last_alert = None\<rparr>];
       ai = [(7, 1) \<mapsto> \<lparr>toxicity_level = Some (9 / 10), dominant_sentiment = None,
                topics_of_interest = None, communication_style = None, last_analysis = 0\<rparr>];
       plat = \<lparr>guild_found = True, bot_channel = True, channel_send_ok = True,
               owner_found = False, owner_send_ok = False\<rparr>;
       r1 = check_toxicity_and_alert plat 1000 1000 1 7 monitored ai;
       r2 = check_toxicity_and_alert plat (1000 + 90 * 60) (1000 + 90 * 60) 1 7 (monitored_after r1) ai;
       r3 = check_toxicity_and_alert plat (1000 + 3 * 3600) (1000 + 3 * 3600) 1 7 (monitored_after r1) ai
   in alert_condition 1000 1 7 monitored ai \<and> sent r1 \<noteq> [] \<and>
      length (sent r1 @ sent r2) = 1 \<and> length (sent r1 @ sent r3) = 2"
  using
    alert_decision [where plat = "\<lparr>guild_found = True, bot_channel = True, channel_send_ok = True,
               owner_found = False, owner_send_ok = False\<rparr>"
      and plat_a = "\<lparr>guild_found = True, bot_channel = True, channel_send_ok = True,
               owner_found = False, owner_send_ok = False\<rparr>"
      and plat_b = "\<lparr>guild_found = True, bot_channel = True, channel_send_ok = True,
               owner_found = False, owner_send_ok = False\<rparr>"
      and monitored = "[(7, 1) \<mapsto> \<lparr>threshold = Some (8 / 10), added_at = 0, last_alert = None\<rparr>]"
      and u = 7 and g = 1 and row = "\<lparr>threshold = Some (8 / 10), added_at = 0, last_alert = None\<rparr>" and thr = "8 / 10"
      and ai = "[(7, 1) \<mapsto> \<lparr>toxicity_level = Some (9 / 10), dominant_sentiment = None,
                topics_of_interest = None, communication_style = None, last_analysis = 0\<rparr>]"
      and ai_a = "[(7, 1) \<mapsto> \<lparr>toxicity_level = Some (9 / 10), dominant_sentiment = None,
                topics_of_interest = None, communication_style = None, last_analysis = 0\<rparr>]"
      and ai_b = "[(7, 1) \<mapsto> \<lparr>toxicity_level = Some (9 / 10), dominant_sentiment = None,
                topics_of_interest = None, communication_style = None, last_analysis = 0\<rparr>]"
      and ra = "\<lparr>toxicity_level = Some (9 / 10), dominant_sentiment = None,
                topics_of_interest = None, communication_style = None, last_analysis = 0\<rparr>"
      and rb = "\<lparr>toxicity_level = Some (9 / 10), dominant_sentiment = None,
                topics_of_interest = None, communication_style = None, last_analysis = 0\<rparr>"
      and tox_a = "9 / 10" and tox_b = "9 / 10"
      and now = 1000 and db_now = 1000
      and now_a = 1000 and db_a = 1000 and now_b = "1000 + 90 * 60" and db_b = "1000 + 90 * 60"]
    alert_decision [where plat = "\<lparr>guild_found = True, bot_channel = True, channel_send_ok = True,
               owner_found = False, owner_send_ok = False\<rparr>"
      and plat_a = "\<lparr>guild_found = True, bot_channel = True, channel_send_ok = True,
               owner_found = False, owner_send_ok = False\<rparr>"
      and plat_b = "\<lparr>guild_found = True, bot_channel = True, channel_send_ok = True,
               owner_found = False, owner_send_ok = False\<rparr>"
      and monitored = "[(7, 1) \<mapsto> \<lparr>threshold = Some (8 / 10), added_at = 0, last_alert = None\<rparr>]"
      and u = 7 and g = 1 and row = "\<lparr>threshold = Some (8 / 10), added_at = 0, last_alert = None\<rparr>" and thr = "8 / 10"
      and ai = "[(7, 1) \<mapsto> \<lparr>toxicity_level = Some (9 / 10), dominant_sentiment = None,
                topics_of_interest = None, communication_style = None, last_analysis = 0\<rparr>]"
      and ai_a = "[(7, 1) \<mapsto> \<lparr>toxicity_level = Some (9 / 10), dominant_sentiment = None,
                topics_of_interest = None, communication_style = None, last_analysis = 0\<rparr>]"
      and ai_b = "[(7, 1) \<mapsto> \<lparr>toxicity_level = Some (9 / 10), dominant_sentiment = None,
                topics_of_interest = None, communication_style = None, last_analysis = 0\<rparr>]"
      and ra = "\<lparr>toxicity_level = Some (9 / 10), dominant_sentiment = None,
                topics_of_interest = None, communication_style = None, last_analysis = 0\<rparr>"
      and rb = "\<lparr>toxicity_level = Some (9 / 10), dominant_sentiment = None,
                topics_of_interest = None, communication_style = None, last_analysis = 0\<rparr>"
      and tox_a = "9 / 10" and tox_b = "9 / 10"
      and now = 1000 and db_now = 1000
      and now_a = 1000 and db_a = 1000 and now_b = "1000 + 3 * 3600" and db_b = "1000 + 3 * 3600"]
  by (simp add: Let_def delivers_def alert_condition_def check_toxicity_and_alert_def
      effective_threshold_def del: not_None_eq)

text \<open>
  The claim C6 as it is written fails when the platform does not deliver: the user is
  monitored, the toxicity 0.9 reaches the threshold 0.8 and there was no alert before,
  yet no notification goes out when the guild does not resolve, and \<open>last_alert\<close> is
  set all the same.
\<close>

theorem alert_without_notification:
  "let monitored = [(7, 1) \<mapsto> \<lparr>threshold = Some (8 / 10), added_at = 0, last_alert = None\<rparr>];
       ai = [(7, 1) \<mapsto> \<lparr>toxicity_level = Some (9 / 10), dominant_sentiment = None,
                topics_of_interest = None, communication_style = None, last_analysis = 0\<rparr>];
       plat = \<lparr>guild_found = False, bot_channel = True, channel_send_ok = True,
               owner_found = True, owner_send_ok = True\<rparr>;
       res = check_toxicity_and_alert plat 1000 1000 1 7 monitored ai
   in alert_condition 1000 1 7 monitored ai \<and> sent res = [] \<and>
      monitored_after res (7, 1) =
        Some \<lparr>threshold = Some (8 / 10), added_at = 0, last_alert = Some 1000\<rparr>"
  by (simp add: Let_def check_toxicity_and_alert_def alert_condition_def effective_threshold_def)

text \<open>
  Claim C10, as the code has it. When an alert is due, \<open>last_alert\<close> is advanced
  whatever the platform answers afterwards. Nothing is sent when the platform does not
  deliver: the guild does not resolve, or the channel of the bot refuses the message, or
  there is no such channel and no owner who accepts a direct message. Without the
  channel but with such an owner, the alert is sent to the owner.
\<close>

theorem alert_not_atomic:
  "alert_due now g u monitored ai \<longrightarrow>
     (let res = check_toxicity_and_alert plat now db_now g u monitored ai
      in (\<exists>row. monitored (u, g) = Some row \<and>
              monitored_after res (u, g) = Some (row\<lparr>last_alert := Some db_now\<rparr>)) \<and>
         (\<not> delivers plat \<longrightarrow> sent res = []) \<and>
         (guild_found plat \<and> \<not> bot_channel plat \<and> owner_found plat \<and> owner_send_ok plat \<longrightarrow>
            (\<exists>tox thr. sent res = [Notification ToOwner u tox thr])))"
proof
  assume due: "alert_due now g u monitored ai"
  from check_due_store [OF due, of plat db_now]
  have 1: "\<exists>row. monitored (u, g) = Some row \<and>
     monitored_after (check_toxicity_and_alert plat now db_now g u monitored ai) (u, g) =
       Some (row\<lparr>last_alert := Some db_now\<rparr>)" by auto
  from check_due_sent [OF due, of plat db_now]
  have 2: "\<not> delivers plat \<longrightarrow> sent (check_toxicity_and_alert plat now db_now g u monitored ai) = []"
    by auto
  from check_due_sent [OF due, of plat db_now]
  have 3: "guild_found plat \<and> \<not> bot_channel plat \<and> owner_found plat \<and> owner_send_ok plat \<longrightarrow>
            (\<exists>tox thr. sent (check_toxicity_and_alert plat now db_now g u monitored ai)
               = [Notification ToOwner u tox thr])"
    by (auto simp: delivers_def)
  from 1 2 3 show "let res = check_toxicity_and_alert plat now db_now g u monitored ai
      in (\<exists>row. monitored (u, g) = Some row \<and>
              monitored_after res (u, g) = Some (row\<lparr>last_alert := Some db_now\<rparr>)) \<and>
         (\<not> delivers plat \<longrightarrow> sent res = []) \<and>
         (guild_found plat \<and> \<not> bot_channel plat \<and> owner_found plat \<and> owner_send_ok plat \<longrightarrow>
            (\<exists>tox thr. sent res = [Notification ToOwner u tox thr]))"
    unfolding Let_def by blast
qed

theorem alert_not_atomic_witness:
  "let monitored = [(3, 2) \<mapsto> \<lparr>threshold = None, added_at = 5, last_alert = Some 100\<rparr>];
       ai = [(3, 2) \<mapsto> \<lparr>toxicity_level = Some 1, dominant_sentiment = None,
                topics_of_interest = None, communication_style = None, last_analysis = 0\<rparr>];
       plat = \<lparr>guild_found = False, bot_channel = False, channel_send_ok = False,
               owner_found = False, owner_send_ok = False\<rparr>;
       res = check_toxicity_and_alert plat 9000 9001 2 3 monitored ai
   in monitored_after res (3, 2) =
        Some \<lparr>threshold = None, added_at = 5, last_alert = Some 9001\<rparr> \<and> sent res = []"
  using alert_not_atomic [where now = 9000 and db_now = 9001 and g = 2 and u = 3
      and monitored = "[(3, 2) \<mapsto> \<lparr>threshold = None, added_at = 5, last_alert = Some 100\<rparr>]"
      and ai = "[(3, 2) \<mapsto> \<lparr>toxicity_level = Some 1, dominant_sentiment = None,
                topics_of_interest = None, communication_style = None, last_analysis = 0\<rparr>]"
      and plat = "\<lparr>guild_found = False, bot_channel = False, channel_send_ok = False,
               owner_found = False, owner_send_ok = False\<rparr>"]
  by (simp add: Let_def alert_due_def effective_threshold_def delivers_def)

text \<open>
  The claim C10 as it is written fails for a guild without the channel of the bot whose
  owner accepts direct messages: the alert is sent, to the owner.
\<close>

theorem alert_owner_fallback:
  "let monitored = [(7, 1) \<mapsto> \<lparr>threshold = Some (8 / 10), added_at = 0, last_alert = None\<rparr>];
       ai = [(7, 1) \<mapsto> \<lparr>toxicity_level = Some (9 / 10), dominant_sentiment = None,
                topics_of_interest = None, communication_style = None, last_analysis = 0\<rparr>];
       plat = \<lparr>guild_found = True, bot_channel = False, channel_send_ok = False,
               owner_found = True, owner_send_ok = True\<rparr>;
       res = check_toxicity_and_alert plat 1000 1000 1 7 monitored ai
   in sent res = [Notification ToOwner 7 (9 / 10) (8 / 10)] \<and>
      monitored_after res (7, 1) =
        Some \<lparr>threshold = Some (8 / 10), added_at = 0, last_alert = Some 1000\<rparr>"
  by (simp add: Let_def check_toxicity_and_alert_def effective_threshold_def)

end
